theory Spec2Isabelle
  imports Complex_Main "HOL-Library.Sublist"
begin

section \<open>Python strings\<close>

text \<open>
  A Python \<open>str\<close> is a sequence of code points. The model takes the text of a message
  to be made of code points below 256, one \<^typ>\<open>char\<close> each, so that \<open>str.strip\<close>,
  \<open>str.lower\<close>, \<open>str.split\<close> and \<open>in\<close> are the functions below.
\<close>

definition isspace :: "char \<Rightarrow> bool" where
  \<comment> \<open>\<open>str.isspace\<close> below 256: TAB..CR, FS..US, space, NEL and the no-break space.\<close>
  "isspace c = (let n = (of_char c :: nat) in
     (9 \<le> n \<and> n \<le> 13) \<or> (28 \<le> n \<and> n \<le> 32) \<or> n = 133 \<or> n = 160)"

definition lower_char :: "char \<Rightarrow> char" where
  \<comment> \<open>\<open>str.lower\<close> below 256: A..Z and the accented capitals (not the multiplication sign).\<close>
  "lower_char c = (let n = (of_char c :: nat) in
     if (65 \<le> n \<and> n \<le> 90) \<or> (192 \<le> n \<and> n \<le> 222 \<and> n \<noteq> 215)
     then char_of (n + 32) else c)"

definition lower :: "string \<Rightarrow> string" where
  "lower s = map lower_char s"

definition strip :: "string \<Rightarrow> string" where
  "strip s = rev (dropWhile isspace (rev (dropWhile isspace s)))"

fun contains :: "string \<Rightarrow> string \<Rightarrow> bool" where
  \<comment> \<open>\<open>contains s sub\<close> is Python's \<open>sub in s\<close>.\<close>
  "contains [] sub = (sub = [])"
| "contains (c # cs) sub = (prefix sub (c # cs) \<or> contains cs sub)"

fun split_on :: "char \<Rightarrow> string \<Rightarrow> string list" where
  \<comment> \<open>\<open>s.split(sep)\<close> for a separator of one character.\<close>
  "split_on sep [] = [[]]"
| "split_on sep (c # cs) =
     (if c = sep then [] # split_on sep cs
      else (case split_on sep cs of [] \<Rightarrow> [[c]] | w # ws \<Rightarrow> (c # w) # ws))"

definition split_first :: "char \<Rightarrow> string \<Rightarrow> string \<times> string" where
  \<comment> \<open>\<open>s.split(sep, 1)\<close> when \<open>sep in s\<close>: the text before and after the first \<open>sep\<close>.\<close>
  "split_first sep s = (takeWhile (\<lambda>c. c \<noteq> sep) s, tl (dropWhile (\<lambda>c. c \<noteq> sep) s))"

fun str_nat :: "nat \<Rightarrow> string" where
  "str_nat n = (if n < 10 then [char_of (48 + n)]
                else str_nat (n div 10) @ [char_of (48 + n mod 10)])"

definition str_int :: "int \<Rightarrow> string" where
  \<comment> \<open>\<open>str(i)\<close> for an integer.\<close>
  "str_int i = (if i < 0 then CHR ''-'' # str_nat (nat (- i)) else str_nat (nat i))"

section \<open>parse_video_config\<close>

datatype exn = ValueError string | Exception string

fun str_exn :: "exn \<Rightarrow> string" where
  "str_exn (ValueError m) = m"
| "str_exn (Exception m) = m"

record config =
  topic :: string
  mode :: string
  style :: string

definition default_config :: config where
  "default_config = \<lparr>topic = [], mode = ''short'', style = ''cinematic''\<rparr>"

definition input_lines :: "string \<Rightarrow> string list" where
  \<comment> \<open>\<open>[line.strip() for line in text.split('\n') if line.strip()]\<close>\<close>
  "input_lines text = map strip (filter (\<lambda>line. strip line \<noteq> []) (split_on (CHR 0x0A) text))"

definition line_key :: "string \<Rightarrow> string" where
  \<comment> \<open>\<open>key.strip().lower()\<close> of \<open>key, value = line.split(':', 1)\<close>\<close>
  "line_key line = lower (strip (fst (split_first (CHR '':'') line)))"

definition line_value :: "string \<Rightarrow> string" where
  \<comment> \<open>\<open>value.strip()\<close> of \<open>key, value = line.split(':', 1)\<close>\<close>
  "line_value line = strip (snd (split_first (CHR '':'') line))"

definition parse_line :: "string \<Rightarrow> config \<Rightarrow> config" where
  \<comment> \<open>the body of the loop over the lines\<close>
  "parse_line line cfg =
     (if CHR '':'' \<notin> set line then cfg
      else
        let key = line_key line; value = line_value line in
        if contains key ''topik'' \<or> contains key ''topic'' then cfg\<lparr>topic := value\<rparr>
        else if contains key ''mode'' then
          (if contains (lower value) ''long'' then cfg\<lparr>mode := ''long''\<rparr>
           else cfg\<lparr>mode := ''short''\<rparr>)
        else if contains key ''style'' \<or> contains key ''gaya'' then cfg\<lparr>style := value\<rparr>
        else cfg)"

fun parse_lines :: "string list \<Rightarrow> config \<Rightarrow> config" where
  "parse_lines [] cfg = cfg"
| "parse_lines (line # rest) cfg = parse_lines rest (parse_line line cfg)"

definition parse_video_config :: "string \<Rightarrow> exn + config" where
  "parse_video_config text =
     (let cfg = parse_lines (input_lines text) default_config in
      if topic cfg = [] then Inl (ValueError ''Topik tidak boleh kosong!'')
      else Inr cfg)"

section \<open>BotConfig and RateLimiter\<close>

text \<open>
  A \<open>datetime\<close> is a count of microseconds, so that the difference of two is the
  \<open>timedelta\<close> between them, also in microseconds, and comparisons are exact.
\<close>

definition COOLDOWN_HOURS :: int where
  "COOLDOWN_HOURS = 24"

definition timedelta_hours :: "int \<Rightarrow> int" where
  \<comment> \<open>\<open>timedelta(hours=h)\<close>\<close>
  "timedelta_hours h = h * 3600 * 1000000"

definition total_seconds :: "int \<Rightarrow> real" where
  "total_seconds td = real_of_int td / 1000000"

record bot_config =
  ADMIN_IDS :: "string list"
  USER_COOLDOWNS :: "int \<rightharpoonup> int"

datatype reason =
  Empty_reason  \<comment> \<open>the empty string\<close>
| Tunggu real   \<comment> \<open>the text asking to wait, around \<open>hours_left\<close> printed with one decimal\<close>

definition can_generate :: "bot_config \<Rightarrow> int \<Rightarrow> int \<Rightarrow> bool \<times> reason" where
  \<comment> \<open>\<open>can_generate bc now user_id\<close>, with \<open>now\<close> the value of \<open>datetime.now()\<close>\<close>
  "can_generate bc now user_id =
     (if str_int user_id \<in> set (ADMIN_IDS bc) then (True, Empty_reason)
      else
        (case USER_COOLDOWNS bc user_id of
           Some last_time \<Rightarrow>
             (let time_passed = now - last_time in
              if time_passed < timedelta_hours COOLDOWN_HOURS
              then (False, Tunggu (real_of_int COOLDOWN_HOURS - total_seconds time_passed / 3600))
              else (True, Empty_reason))
         | None \<Rightarrow> (True, Empty_reason)))"

definition mark_generated :: "bot_config \<Rightarrow> int \<Rightarrow> int \<Rightarrow> bot_config" where
  "mark_generated bc now user_id = bc\<lparr>USER_COOLDOWNS := (USER_COOLDOWNS bc)(user_id \<mapsto> now)\<rparr>"

section \<open>The handlers\<close>

record generation_result =
  title :: string       \<comment> \<open>\<open>result['metadata']['title']\<close>\<close>
  video_path :: string  \<comment> \<open>\<open>result['video_path']\<close>\<close>

datatype message =
  Cooldown_text reason
| Instruction_text
| Format_salah string               \<comment> \<open>with \<open>str(e)\<close>\<close>
| Config_diterima config
| Progress_text
| Berhasil_text string string string real  \<comment> \<open>title, file, duration, size in MB\<close>
| Mengirim_text
| Terlalu_besar_text
| Gagal_text string                 \<comment> \<open>with \<open>str(e)\<close>\<close>

datatype event =
  Reply_text message
| Reply_video string string         \<comment> \<open>the file sent and its caption\<close>
| Generate string string string
| Mark_generated int
| Stat string
| Open_file string
| Close_file string
| Unlink string
| Log_error string
| Create_task config int

text \<open>
  The collaborators (the transport, the generator, the file system, the clock) are
  outside the program: a \<open>world\<close> says what each of their calls returns or raises.
\<close>

record world =
  reply_text_result :: "message \<Rightarrow> exn + unit"
  reply_video_result :: "string \<Rightarrow> exn + unit"
  generate_result :: "string \<Rightarrow> string \<Rightarrow> string \<Rightarrow> exn + generation_result"
  stat_size :: "string \<Rightarrow> exn + nat"
  open_result :: "string \<Rightarrow> exn + unit"
  unlink_result :: "string \<Rightarrow> exn + unit"
  datetime_now :: int

text \<open>
  A handler runs on the state \<open>BotConfig\<close> and returns its result or the exception it
  raised, the new state, and the calls it made, in order. A run is one handler or one
  task alone: what other tasks do between its awaits is not part of it, and a call
  repeated within a run (the two \<open>stat\<close> of the file) gets the same answer.
\<close>

type_synonym 'a run = "bot_config \<Rightarrow> (exn + 'a) \<times> bot_config \<times> event list"

definition call :: "event \<Rightarrow> (exn + 'a) \<Rightarrow> 'a run" where
  "call ev outcome bc = (outcome, bc, [ev])"

definition bind :: "'a run \<Rightarrow> ('a \<Rightarrow> 'b run) \<Rightarrow> 'b run" where
  "bind m f bc =
     (case m bc of
        (Inl e, bc', tr) \<Rightarrow> (Inl e, bc', tr)
      | (Inr a, bc', tr) \<Rightarrow> (case f a bc' of (r, bc'', tr') \<Rightarrow> (r, bc'', tr @ tr')))"

definition mark_generated_run :: "world \<Rightarrow> int \<Rightarrow> unit run" where
  "mark_generated_run w user_id bc =
     (Inr (), mark_generated bc (datetime_now w) user_id, [Mark_generated user_id])"

definition send_video :: "world \<Rightarrow> generation_result \<Rightarrow> unit run" where
  \<comment> \<open>the \<open>with open(...)\<close> block: the file is closed whether \<open>reply_video\<close> returns or raises\<close>
  "send_video w result =
     bind (call (Open_file (video_path result)) (open_result w (video_path result))) (\<lambda>_ bc.
       (reply_video_result w (video_path result), bc,
        [Reply_video (video_path result) (title result), Close_file (video_path result)]))"

definition duration_label :: "string \<Rightarrow> string" where
  \<comment> \<open>\<open>config['mode'] == 'short' and '40' or '240'\<close>\<close>
  "duration_label m = (if m = ''short'' then ''40'' else ''240'')"

definition success_text :: "config \<Rightarrow> generation_result \<Rightarrow> nat \<Rightarrow> message" where
  \<comment> \<open>the summary, with the title, the file's name, the duration and the size in MB\<close>
  "success_text cfg result st_size =
     Berhasil_text (title result) (video_path result) (duration_label (mode cfg))
       (real st_size / 1024 / 1024)"

definition generate_video_body :: "world \<Rightarrow> config \<Rightarrow> int \<Rightarrow> unit run" where
  \<comment> \<open>the \<open>try\<close> block of \<open>generate_video_task\<close>\<close>
  "generate_video_body w cfg user_id =
     bind (call (Reply_text Progress_text) (reply_text_result w Progress_text)) (\<lambda>_.
     bind (call (Generate (topic cfg) (mode cfg) (style cfg))
                (generate_result w (topic cfg) (mode cfg) (style cfg))) (\<lambda>result.
     bind (mark_generated_run w user_id) (\<lambda>_.
     bind (call (Stat (video_path result)) (stat_size w (video_path result))) (\<lambda>st_size.
     bind (call (Reply_text (success_text cfg result st_size))
                (reply_text_result w (success_text cfg result st_size))) (\<lambda>_.
     bind (call (Stat (video_path result)) (stat_size w (video_path result))) (\<lambda>st_size.
     let file_size_mb = real st_size / 1024 / 1024 in
     bind (if file_size_mb < 50
           then bind (call (Reply_text Mengirim_text) (reply_text_result w Mengirim_text))
                     (\<lambda>_. send_video w result)
           else call (Reply_text Terlalu_besar_text) (reply_text_result w Terlalu_besar_text)) (\<lambda>_.
     call (Unlink (video_path result)) (unlink_result w (video_path result)))))))))"

definition generate_video_task :: "world \<Rightarrow> config \<Rightarrow> int \<Rightarrow> unit run" where
  "generate_video_task w cfg user_id bc =
     (case generate_video_body w cfg user_id bc of
        (Inr u, bc', tr) \<Rightarrow> (Inr u, bc', tr)
      | (Inl e, bc', tr) \<Rightarrow>
          (reply_text_result w (Gagal_text (str_exn e)), bc',
           tr @ [Log_error (str_exn e), Reply_text (Gagal_text (str_exn e))]))"

record user_data =
  waiting_for_input :: "bool option"  \<comment> \<open>\<open>None\<close>: the key is not in the dictionary\<close>

definition buatvideo :: "world \<Rightarrow> int \<Rightarrow> user_data \<Rightarrow> bot_config
    \<Rightarrow> (exn + unit) \<times> user_data \<times> event list" where
  "buatvideo w user_id ud bc =
     (case can_generate bc (datetime_now w) user_id of
        (False, cooldown_msg) \<Rightarrow>
          (reply_text_result w (Cooldown_text cooldown_msg), ud, [Reply_text (Cooldown_text cooldown_msg)])
      | (True, _) \<Rightarrow>
          (case reply_text_result w Instruction_text of
             Inl e \<Rightarrow> (Inl e, ud, [Reply_text Instruction_text])
           | Inr _ \<Rightarrow> (Inr (), ud\<lparr>waiting_for_input := Some True\<rparr>, [Reply_text Instruction_text])))"

definition handle_input :: "world \<Rightarrow> string \<Rightarrow> int \<Rightarrow> user_data
    \<Rightarrow> (exn + unit) \<times> user_data \<times> event list" where
  \<comment> \<open>the handler of a text message that is not a command; \<open>Create_task\<close> is the task it starts\<close>
  "handle_input w text user_id ud =
     (if \<not> (case waiting_for_input ud of None \<Rightarrow> False | Some b \<Rightarrow> b) then (Inr (), ud, [])
      else
        (case parse_video_config text of
           Inl e \<Rightarrow>
             (reply_text_result w (Format_salah (str_exn e)), ud,
              [Reply_text (Format_salah (str_exn e))])
         | Inr cfg \<Rightarrow>
             (let ud' = ud\<lparr>waiting_for_input := Some False\<rparr> in
              case reply_text_result w (Config_diterima cfg) of
                Inl e \<Rightarrow> (Inl e, ud', [Reply_text (Config_diterima cfg)])
              | Inr _ \<Rightarrow> (Inr (), ud', [Reply_text (Config_diterima cfg), Create_task cfg user_id]))))"

section \<open>Notions used to state the properties\<close>

text \<open>
  A line with a colon belongs to the family of the branch that the \<open>if\<close>/\<open>elif\<close>
  chain of \<open>parse_video_config\<close> takes for its key; a line of no family changes nothing.
\<close>

definition is_topic_line :: "string \<Rightarrow> bool" where
  "is_topic_line line = (CHR '':'' \<in> set line \<and>
     (contains (line_key line) ''topik'' \<or> contains (line_key line) ''topic''))"

definition is_mode_line :: "string \<Rightarrow> bool" where
  "is_mode_line line = (CHR '':'' \<in> set line \<and> \<not> is_topic_line line \<and>
     contains (line_key line) ''mode'')"

definition is_style_line :: "string \<Rightarrow> bool" where
  "is_style_line line = (CHR '':'' \<in> set line \<and> \<not> is_topic_line line \<and> \<not> is_mode_line line \<and>
     (contains (line_key line) ''style'' \<or> contains (line_key line) ''gaya''))"

definition key_contains_mode :: "string \<Rightarrow> bool" where
  \<comment> \<open>a line whose key contains \<open>mode\<close>, whatever else the key contains\<close>
  "key_contains_mode line = (CHR '':'' \<in> set line \<and> contains (line_key line) ''mode'')"

definition mode_of_value :: "string \<Rightarrow> string" where
  "mode_of_value v = (if contains (lower v) ''long'' then ''long'' else ''short'')"

datatype family = Topic | Mode | Style

fun in_family :: "family \<Rightarrow> string \<Rightarrow> bool" where
  "in_family Topic line = is_topic_line line"
| "in_family Mode line = is_mode_line line"
| "in_family Style line = is_style_line line"

fun field :: "family \<Rightarrow> config \<Rightarrow> string" where
  "field Topic cfg = topic cfg"
| "field Mode cfg = mode cfg"
| "field Style cfg = style cfg"

fun assigned :: "family \<Rightarrow> string \<Rightarrow> string" where
  \<comment> \<open>what a line of the family stores in the family's field\<close>
  "assigned Topic line = line_value line"
| "assigned Mode line = mode_of_value (line_value line)"
| "assigned Style line = line_value line"

fun key_matches :: "family \<Rightarrow> string \<Rightarrow> bool" where
  \<comment> \<open>the families by substring alone, without the order of the branches\<close>
  "key_matches Topic line = (CHR '':'' \<in> set line \<and>
     (contains (line_key line) ''topik'' \<or> contains (line_key line) ''topic''))"
| "key_matches Mode line = (CHR '':'' \<in> set line \<and> contains (line_key line) ''mode'')"
| "key_matches Style line = (CHR '':'' \<in> set line \<and>
     (contains (line_key line) ''style'' \<or> contains (line_key line) ''gaya''))"



definition is_reply_video :: "event \<Rightarrow> bool" where
  "is_reply_video ev = (case ev of Reply_video _ _ \<Rightarrow> True | _ \<Rightarrow> False)"

definition delivery_prefix :: "config \<Rightarrow> generation_result \<Rightarrow> nat \<Rightarrow> int \<Rightarrow> event list" where
  \<comment> \<open>the calls of a task up to the test of the file's size\<close>
  "delivery_prefix cfg result st_size user_id =
     [Reply_text Progress_text, Generate (topic cfg) (mode cfg) (style cfg),
      Mark_generated user_id, Stat (video_path result),
      Reply_text (success_text cfg result st_size), Stat (video_path result)]"

subsection \<open>Concrete worlds\<close>

definition stub_world :: world where
  \<comment> \<open>every call returns; the generator is the stub of \<open>main.py\<close>; the file has 1 MB\<close>
  "stub_world = \<lparr>
     reply_text_result = (\<lambda>_. Inr ()),
     reply_video_result = (\<lambda>_. Inr ()),
     generate_result = (\<lambda>t m s. Inr \<lparr>title = t, video_path = ''dummy.mp4''\<rparr>),
     stat_size = (\<lambda>_. Inr 1048576),
     open_result = (\<lambda>_. Inr ()),
     unlink_result = (\<lambda>_. Inr ()),
     datetime_now = 1000\<rparr>"

definition big_file_world :: world where
  \<comment> \<open>the file has 60 MB\<close>
  "big_file_world = stub_world\<lparr>stat_size := (\<lambda>_. Inr 62914560)\<rparr>"


definition video_fails_world :: world where
  "video_fails_world = stub_world\<lparr>reply_video_result := (\<lambda>_. Inl (Exception ''Timed out''))\<rparr>"

definition ai_config :: config where
  "ai_config = \<lparr>topic = ''AI'', mode = ''long'', style = ''cinematic''\<rparr>"

definition ai_result :: generation_result where
  "ai_result = \<lparr>title = ''AI'', video_path = ''dummy.mp4''\<rparr>"

definition no_cooldowns :: bot_config where
  "no_cooldowns = \<lparr>ADMIN_IDS = [''42''], USER_COOLDOWNS = Map.empty\<rparr>"

definition marked_7 :: bot_config where
  \<comment> \<open>\<open>no_cooldowns\<close> after \<open>mark_generated(7)\<close> at time 1000\<close>
  "marked_7 = \<lparr>ADMIN_IDS = [''42''], USER_COOLDOWNS = [7 \<mapsto> 1000]\<rparr>"

definition cooling_down :: bot_config where
  \<comment> \<open>users 7 and 42 generated at time 0\<close>
  "cooling_down = \<lparr>ADMIN_IDS = [''42''], USER_COOLDOWNS = [7 \<mapsto> 0, 42 \<mapsto> 0]\<rparr>"


section \<open>Properties of parse_video_config\<close>

lemma parse_line_field:
  "field f (parse_line line cfg) = (if in_family f line then assigned f line else field f cfg)"
  by (cases f)
     (simp_all add: parse_line_def is_topic_line_def is_mode_line_def is_style_line_def
        mode_of_value_def Let_def)

lemma parse_lines_field:
  "field f (parse_lines ls cfg) =
     (if filter (in_family f) ls = [] then field f cfg
      else assigned f (last (filter (in_family f) ls)))"
proof (induction ls arbitrary: cfg)
  case Nil
  show ?case by simp
next
  case (Cons l ls)
  show ?case
    by (simp add: Cons.IH parse_line_field)
qed

lemma parse_lines_last:
  assumes "in_family f l" and "\<forall>x\<in>set post. \<not> in_family f x"
  shows "field f (parse_lines (pre @ l # post) cfg) = assigned f l"
proof -
  have "filter (in_family f) post = []"
    using assms(2) by (simp add: filter_empty_conv)
  then have "filter (in_family f) (pre @ l # post) = filter (in_family f) pre @ [l]"
    using assms(1) by simp
  then show ?thesis
    by (simp add: parse_lines_field)
qed

lemma parse_video_config_cases:
  "parse_video_config text =
     (if topic (parse_lines (input_lines text) default_config) = []
      then Inl (ValueError ''Topik tidak boleh kosong!'')
      else Inr (parse_lines (input_lines text) default_config))"
  by (simp add: parse_video_config_def Let_def)

text \<open>
  C4, as amended. \<open>parse_video_config\<close> raises the validation error exactly when the
  topic is empty after all lines: when no line with a colon has a key containing
  \<open>topik\<close> or \<open>topic\<close>, or when the last such line has an empty value after its first
  colon. On every other text it returns the configuration that the lines build.
\<close>

theorem parse_fails_iff_last_topic_empty:
  "parse_video_config text =
     (if filter is_topic_line (input_lines text) = []
         \<or> line_value (last (filter is_topic_line (input_lines text))) = []
      then Inl (ValueError ''Topik tidak boleh kosong!'')
      else Inr (parse_lines (input_lines text) default_config))"
proof -
  have "topic (parse_lines (input_lines text) default_config) =
     (if filter is_topic_line (input_lines text) = [] then []
      else line_value (last (filter is_topic_line (input_lines text))))"
    using parse_lines_field [of Topic "input_lines text" default_config]
    by (simp add: default_config_def cong: filter_cong)
  then show ?thesis
    by (simp add: parse_video_config_cases)
qed

theorem parse_fails_iff_last_topic_empty_witness:
  "parse_video_config ''topic: foo\<newline>topic:'' = Inl (ValueError ''Topik tidak boleh kosong!'')
   \<and> parse_video_config ''topic:\<newline>topic: foo''
       = Inr \<lparr>topic = ''foo'', mode = ''short'', style = ''cinematic''\<rparr>"
proof -
  have a: "filter is_topic_line (input_lines ''topic: foo\<newline>topic:'') = [''topic: foo'', ''topic:'']"
    by code_simp
  have b: "line_value ''topic:'' = []" by code_simp
  have c: "filter is_topic_line (input_lines ''topic:\<newline>topic: foo'') = [''topic:'', ''topic: foo'']"
    by code_simp
  have d: "line_value ''topic: foo'' = ''foo''" by code_simp
  have e: "parse_lines (input_lines ''topic:\<newline>topic: foo'') default_config
      = \<lparr>topic = ''foo'', mode = ''short'', style = ''cinematic''\<rparr>" by code_simp
  show ?thesis
    using parse_fails_iff_last_topic_empty [of "''topic: foo\<newline>topic:''"]
      parse_fails_iff_last_topic_empty [of "''topic:\<newline>topic: foo''"]
    by (simp add: a b c d e)
qed

text \<open>
  A text with a topic line of non-empty value is still refused when a later topic line
  has an empty value: the two lines \<open>topic: foo\<close> and \<open>topic:\<close> raise the error.
\<close>

theorem parse_fails_counterexample:
  "parse_video_config ''topic: foo\<newline>topic:'' = Inl (ValueError ''Topik tidak boleh kosong!'')
   \<and> ''topic: foo'' \<in> set (input_lines ''topic: foo\<newline>topic:'')
   \<and> CHR '':'' \<in> set ''topic: foo''
   \<and> contains (line_key ''topic: foo'') ''topic''
   \<and> line_value ''topic: foo'' = ''foo''"
  by code_simp

text \<open>
  C8, as amended. A line is of a family when its key takes the family's branch: topic
  when the key contains \<open>topik\<close> or \<open>topic\<close>; mode when it contains \<open>mode\<close> and is not of
  topic; style when it contains \<open>style\<close> or \<open>gaya\<close> and is of neither. When the lines of
  an accepted text hold a line \<open>l\<close> of some family and no later line of that family, the
  returned configuration holds in the family's field what \<open>l\<close> alone assigns, whatever
  the earlier lines of the family were.
\<close>

theorem duplicate_keys_last_wins:
  assumes "parse_video_config text = Inr cfg"
    and "input_lines text = pre @ l # post"
    and "in_family f l"
    and "\<forall>x\<in>set post. \<not> in_family f x"
  shows "field f cfg = assigned f l"
proof -
  have "cfg = parse_lines (input_lines text) default_config"
    using assms(1) by (simp add: parse_video_config_cases split: if_splits)
  then show ?thesis
    using assms(2-4) by (simp add: parse_lines_last)
qed

theorem duplicate_keys_last_wins_witness:
  "parse_video_config ''topic: a\<newline>mode: long\<newline>mode: short''
     = Inr \<lparr>topic = ''a'', mode = ''short'', style = ''cinematic''\<rparr>
   \<and> input_lines ''topic: a\<newline>mode: long\<newline>mode: short''
     = [''topic: a'', ''mode: long''] @ ''mode: short'' # []
   \<and> in_family Mode ''mode: long'' \<and> in_family Mode ''mode: short''
   \<and> field Mode \<lparr>topic = ''a'', mode = ''short'', style = ''cinematic''\<rparr> = assigned Mode ''mode: short''"
proof -
  have a: "parse_video_config ''topic: a\<newline>mode: long\<newline>mode: short''
     = Inr \<lparr>topic = ''a'', mode = ''short'', style = ''cinematic''\<rparr>"
    by code_simp
  have b: "input_lines ''topic: a\<newline>mode: long\<newline>mode: short''
     = [''topic: a'', ''mode: long''] @ ''mode: short'' # []"
    by code_simp
  have c: "in_family Mode ''mode: short''" by code_simp
  have c': "in_family Mode ''mode: long''" by code_simp
  have d: "\<forall>x\<in>set []. \<not> in_family Mode x" by simp
  show ?thesis
    using a b c c' duplicate_keys_last_wins [OF a b c d] by simp
qed

text \<open>
  With families taken by substring alone, a key may match several of them, and the last
  line matching a family need not be the one that sets its field: of the lines
  \<open>topic: a\<close>, \<open>mode: long\<close> and \<open>mode (topic): short\<close>, the last two match the mode
  family, the last would assign \<open>short\<close>, and the returned mode is \<open>long\<close>.
\<close>

theorem duplicate_keys_counterexample:
  "parse_video_config ''topic: a\<newline>mode: long\<newline>mode (topic): short''
     = Inr \<lparr>topic = ''short'', mode = ''long'', style = ''cinematic''\<rparr>
   \<and> filter (key_matches Mode) (input_lines ''topic: a\<newline>mode: long\<newline>mode (topic): short'')
     = [''mode: long'', ''mode (topic): short'']
   \<and> assigned Mode ''mode (topic): short'' = ''short''
   \<and> field Mode \<lparr>topic = ''short'', mode = ''long'', style = ''cinematic''\<rparr> = ''long''"
  by code_simp

text \<open>
  C9, as amended. In the configuration returned for an accepted text, the mode is
  \<open>long\<close> exactly when there is a mode line (a line whose key contains \<open>mode\<close> and neither
  \<open>topik\<close> nor \<open>topic\<close>) and the value of the last one contains \<open>long\<close> once lower-cased;
  it is \<open>short\<close> when that value does not contain \<open>long\<close> or when there is no mode line;
  and the style is \<open>cinematic\<close> when there is no style line.
\<close>

theorem mode_and_style_of_accepted:
  assumes "parse_video_config text = Inr cfg"
  shows "(mode cfg = ''long'' \<longleftrightarrow>
            filter is_mode_line (input_lines text) \<noteq> [] \<and>
            contains (lower (line_value (last (filter is_mode_line (input_lines text))))) ''long'')
       \<and> (mode cfg = ''short'' \<longleftrightarrow>
            filter is_mode_line (input_lines text) = [] \<or>
            \<not> contains (lower (line_value (last (filter is_mode_line (input_lines text))))) ''long'')
       \<and> (filter is_style_line (input_lines text) = [] \<longrightarrow> style cfg = ''cinematic'')"
proof -
  have cfg: "cfg = parse_lines (input_lines text) default_config"
    using assms by (simp add: parse_video_config_cases split: if_splits)
  have m: "mode cfg =
     (if filter is_mode_line (input_lines text) = [] then ''short''
      else mode_of_value (line_value (last (filter is_mode_line (input_lines text)))))"
    using parse_lines_field [of Mode "input_lines text" default_config]
    by (simp add: cfg default_config_def cong: filter_cong)
  have s: "filter is_style_line (input_lines text) = [] \<Longrightarrow> style cfg = ''cinematic''"
    using parse_lines_field [of Style "input_lines text" default_config]
    by (simp add: cfg default_config_def cong: filter_cong)
  show ?thesis
    using m s by (simp add: mode_of_value_def)
qed

theorem mode_and_style_of_accepted_witness:
  "parse_video_config ''topic: x\<newline>mode: long\<newline>topic mode: short''
     = Inr \<lparr>topic = ''short'', mode = ''long'', style = ''cinematic''\<rparr>
   \<and> filter is_mode_line (input_lines ''topic: x\<newline>mode: long\<newline>topic mode: short'') = [''mode: long'']
   \<and> filter is_style_line (input_lines ''topic: x\<newline>mode: long\<newline>topic mode: short'') = []
   \<and> contains (lower (line_value ''mode: long'')) ''long''"
proof -
  have a: "parse_video_config ''topic: x\<newline>mode: long\<newline>topic mode: short''
     = Inr \<lparr>topic = ''short'', mode = ''long'', style = ''cinematic''\<rparr>" by code_simp
  have b: "filter is_mode_line (input_lines ''topic: x\<newline>mode: long\<newline>topic mode: short'') = [''mode: long'']"
    by code_simp
  have c: "filter is_style_line (input_lines ''topic: x\<newline>mode: long\<newline>topic mode: short'') = []"
    by code_simp
  show ?thesis
    using mode_and_style_of_accepted [OF a] by (simp add: a b c)
qed

text \<open>
  With the lines \<open>topic: x\<close>, \<open>mode: long\<close> and \<open>topic mode: short\<close>, the last line
  whose key contains \<open>mode\<close> has the value \<open>short\<close>, and the returned mode is \<open>long\<close>:
  that line's key also contains \<open>topic\<close>, so it sets the topic.
\<close>

theorem mode_last_key_counterexample:
  "parse_video_config ''topic: x\<newline>mode: long\<newline>topic mode: short''
     = Inr \<lparr>topic = ''short'', mode = ''long'', style = ''cinematic''\<rparr>
   \<and> last (filter key_contains_mode (input_lines ''topic: x\<newline>mode: long\<newline>topic mode: short''))
     = ''topic mode: short''
   \<and> \<not> contains (lower (line_value ''topic mode: short'')) ''long''"
  by code_simp

text \<open>
  C10. A line with a colon changes at most one field, chosen in the order topic, mode,
  style: a key containing \<open>topik\<close> or \<open>topic\<close> sets the topic only, whatever else it
  contains; otherwise a key containing \<open>mode\<close> sets the mode only; otherwise a key
  containing \<open>style\<close> or \<open>gaya\<close> sets the style only; any other key changes nothing.
\<close>

theorem parse_line_precedence:
  assumes "CHR '':'' \<in> set line"
  shows "(contains (line_key line) ''topik'' \<or> contains (line_key line) ''topic'' \<longrightarrow>
            parse_line line cfg = cfg\<lparr>topic := line_value line\<rparr>)
       \<and> (\<not> contains (line_key line) ''topik'' \<and> \<not> contains (line_key line) ''topic'' \<and>
           contains (line_key line) ''mode'' \<longrightarrow>
            parse_line line cfg = cfg\<lparr>mode := mode_of_value (line_value line)\<rparr>)
       \<and> (\<not> contains (line_key line) ''topik'' \<and> \<not> contains (line_key line) ''topic'' \<and>
           \<not> contains (line_key line) ''mode'' \<and>
           (contains (line_key line) ''style'' \<or> contains (line_key line) ''gaya'') \<longrightarrow>
            parse_line line cfg = cfg\<lparr>style := line_value line\<rparr>)
       \<and> (\<not> contains (line_key line) ''topik'' \<and> \<not> contains (line_key line) ''topic'' \<and>
           \<not> contains (line_key line) ''mode'' \<and>
           \<not> contains (line_key line) ''style'' \<and> \<not> contains (line_key line) ''gaya'' \<longrightarrow>
            parse_line line cfg = cfg)"
  using assms by (simp add: parse_line_def mode_of_value_def Let_def)

theorem parse_line_precedence_witness:
  "parse_line ''topic mode style: long'' default_config
     = \<lparr>topic = ''long'', mode = ''short'', style = ''cinematic''\<rparr>
   \<and> parse_line ''mode style: long'' default_config
     = \<lparr>topic = [], mode = ''long'', style = ''cinematic''\<rparr>
   \<and> parse_line ''gaya: long'' default_config
     = \<lparr>topic = [], mode = ''short'', style = ''long''\<rparr>
   \<and> parse_line ''judul: long'' default_config = default_config"
proof -
  have c1: "CHR '':'' \<in> set ''topic mode style: long''" by simp
  have c2: "CHR '':'' \<in> set ''mode style: long''" by simp
  have c3: "CHR '':'' \<in> set ''gaya: long''" by simp
  have c4: "CHR '':'' \<in> set ''judul: long''" by simp
  have k1: "line_key ''topic mode style: long'' = ''topic mode style''" by code_simp
  have k2: "line_key ''mode style: long'' = ''mode style''" by code_simp
  have k3: "line_key ''gaya: long'' = ''gaya''" by code_simp
  have k4: "line_key ''judul: long'' = ''judul''" by code_simp
  have v1: "line_value ''topic mode style: long'' = ''long''" by code_simp
  have v2: "line_value ''mode style: long'' = ''long''" by code_simp
  have v3: "line_value ''gaya: long'' = ''long''" by code_simp
  have m: "mode_of_value ''long'' = ''long''" by code_simp
  show ?thesis
    using parse_line_precedence [OF c1, of default_config]
      parse_line_precedence [OF c2, of default_config]
      parse_line_precedence [OF c3, of default_config]
      parse_line_precedence [OF c4, of default_config]
    by (simp add: k1 k2 k3 k4 v1 v2 v3 m default_config_def)
qed

section \<open>Properties of the rate limiter\<close>

text \<open>
  C3. For a user that is not an administrator: with no entry in the cooldown map the
  answer is allowed; with an entry less than 24 hours old the answer is denied, with the
  hours left, 24 minus the hours passed, a figure that is not negative; with an entry at
  least 24 hours old the answer is allowed. Times are in microseconds.
\<close>

theorem can_generate_non_admin:
  assumes "str_int user_id \<notin> set (ADMIN_IDS bc)"
  shows "(USER_COOLDOWNS bc user_id = None \<longrightarrow> can_generate bc now user_id = (True, Empty_reason))
       \<and> (USER_COOLDOWNS bc user_id = Some last_time \<and> now - last_time < 86400000000 \<longrightarrow>
            can_generate bc now user_id
              = (False, Tunggu (24 - real_of_int (now - last_time) / 3600000000))
            \<and> (0::real) \<le> 24 - real_of_int (now - last_time) / 3600000000)
       \<and> (USER_COOLDOWNS bc user_id = Some last_time \<and> 86400000000 \<le> now - last_time \<longrightarrow>
            can_generate bc now user_id = (True, Empty_reason))"
  using assms
  by (simp add: can_generate_def COOLDOWN_HOURS_def timedelta_hours_def total_seconds_def Let_def)

theorem can_generate_non_admin_witness:
  "str_int 7 \<notin> set (ADMIN_IDS cooling_down)
   \<and> USER_COOLDOWNS cooling_down 7 = Some 0
   \<and> can_generate cooling_down 3600000000 7 = (False, Tunggu 23)
   \<and> can_generate cooling_down 90000000000 7 = (True, Empty_reason)
   \<and> can_generate no_cooldowns 3600000000 7 = (True, Empty_reason)"
proof -
  have a: "str_int 7 \<notin> set (ADMIN_IDS cooling_down)" by code_simp
  have b: "str_int 7 \<notin> set (ADMIN_IDS no_cooldowns)" by code_simp
  have c: "USER_COOLDOWNS cooling_down 7 = Some 0" by (simp add: cooling_down_def)
  have d: "USER_COOLDOWNS no_cooldowns 7 = None" by (simp add: no_cooldowns_def)
  show ?thesis
    using a c d can_generate_non_admin [OF a, where now = 3600000000 and last_time = 0]
      can_generate_non_admin [OF a, where now = 90000000000 and last_time = 0]
      can_generate_non_admin [OF b, where now = 3600000000 and last_time = 0]
    by simp
qed

text \<open>
  C7. For a user whose identity is in the list of administrators, \<open>can_generate\<close>
  answers allowed, with the empty reason, whatever the cooldown map holds.
\<close>

theorem can_generate_admin:
  assumes "str_int user_id \<in> set (ADMIN_IDS bc)"
  shows "can_generate bc now user_id = (True, Empty_reason)"
  using assms by (simp add: can_generate_def)

theorem can_generate_admin_witness:
  "str_int 42 \<in> set (ADMIN_IDS cooling_down)
   \<and> USER_COOLDOWNS cooling_down 42 = Some 0
   \<and> can_generate cooling_down 3600000000 42 = (True, Empty_reason)"
proof -
  have a: "str_int 42 \<in> set (ADMIN_IDS cooling_down)" by code_simp
  have c: "USER_COOLDOWNS cooling_down 42 = Some 0" by (simp add: cooling_down_def)
  show ?thesis
    using a c can_generate_admin [OF a, of 3600000000] by simp
qed

section \<open>Properties of the handlers\<close>

lemmas run_defs = generate_video_task_def generate_video_body_def bind_def call_def
  mark_generated_run_def send_video_def Let_def

lemma below_threshold: "(real st_size / 1024 / 1024 < 50) = (st_size < 52428800)"
  by (simp add: field_simps)

lemma body_small_file:
  assumes "reply_text_result w Progress_text = Inr ()"
    and "generate_result w (topic cfg) (mode cfg) (style cfg) = Inr result"
    and "stat_size w (video_path result) = Inr st_size"
    and "reply_text_result w (success_text cfg result st_size) = Inr ()"
    and "st_size < 52428800"
    and "reply_text_result w Mengirim_text = Inr ()"
    and "open_result w (video_path result) = Inr ()"
  shows "generate_video_body w cfg user_id bc =
     (case reply_video_result w (video_path result) of
        Inr u \<Rightarrow>
          (unlink_result w (video_path result), mark_generated bc (datetime_now w) user_id,
           delivery_prefix cfg result st_size user_id @
           [Reply_text Mengirim_text, Open_file (video_path result),
            Reply_video (video_path result) (title result), Close_file (video_path result),
            Unlink (video_path result)])
      | Inl e \<Rightarrow>
          (Inl e, mark_generated bc (datetime_now w) user_id,
           delivery_prefix cfg result st_size user_id @
           [Reply_text Mengirim_text, Open_file (video_path result),
            Reply_video (video_path result) (title result), Close_file (video_path result)]))"
  using assms
  by (simp add: run_defs below_threshold delivery_prefix_def split: sum.splits)

lemma body_large_file:
  assumes "reply_text_result w Progress_text = Inr ()"
    and "generate_result w (topic cfg) (mode cfg) (style cfg) = Inr result"
    and "stat_size w (video_path result) = Inr st_size"
    and "reply_text_result w (success_text cfg result st_size) = Inr ()"
    and "52428800 \<le> st_size"
  shows "generate_video_body w cfg user_id bc =
     (case reply_text_result w Terlalu_besar_text of
        Inr u \<Rightarrow>
          (unlink_result w (video_path result), mark_generated bc (datetime_now w) user_id,
           delivery_prefix cfg result st_size user_id @
           [Reply_text Terlalu_besar_text, Unlink (video_path result)])
      | Inl e \<Rightarrow>
          (Inl e, mark_generated bc (datetime_now w) user_id,
           delivery_prefix cfg result st_size user_id @ [Reply_text Terlalu_besar_text]))"
  using assms
  by (simp add: run_defs below_threshold delivery_prefix_def split: sum.splits)

lemma run_stub:
  "generate_video_task stub_world ai_config 7 no_cooldowns =
     (Inr (), marked_7,
      delivery_prefix ai_config ai_result 1048576 7 @
      [Reply_text Mengirim_text, Open_file ''dummy.mp4'', Reply_video ''dummy.mp4'' ''AI'',
       Close_file ''dummy.mp4'', Unlink ''dummy.mp4''])"
  by (simp add: run_defs stub_world_def ai_config_def ai_result_def no_cooldowns_def marked_7_def
        delivery_prefix_def mark_generated_def)

lemma run_big_file:
  "generate_video_task big_file_world ai_config 7 no_cooldowns =
     (Inr (), marked_7,
      delivery_prefix ai_config ai_result 62914560 7 @
      [Reply_text Terlalu_besar_text, Unlink ''dummy.mp4''])"
  by (simp add: run_defs big_file_world_def stub_world_def ai_config_def ai_result_def
        no_cooldowns_def marked_7_def delivery_prefix_def mark_generated_def)


text \<open>
  C1, as amended. When the flag that awaits input is set, \<open>handle_input\<close> clears it
  exactly when \<open>parse_video_config\<close> returns a configuration; when the parse raises, the
  user is asked to try again and the flag stays set.
\<close>

theorem handle_input_flag:
  assumes "waiting_for_input ud = Some True"
    and "handle_input w text user_id ud = (r, ud', tr)"
  shows "waiting_for_input ud' =
     (case parse_video_config text of Inl e \<Rightarrow> Some True | Inr cfg \<Rightarrow> Some False)"
  using assms
  by (auto simp: handle_input_def Let_def split: sum.splits)

theorem handle_input_flag_witness:
  "handle_input stub_world ''Topic: foo'' 7 \<lparr>waiting_for_input = Some True\<rparr>
     = (Inr (), \<lparr>waiting_for_input = Some False\<rparr>,
        [Reply_text (Config_diterima \<lparr>topic = ''foo'', mode = ''short'', style = ''cinematic''\<rparr>),
         Create_task \<lparr>topic = ''foo'', mode = ''short'', style = ''cinematic''\<rparr> 7])
   \<and> waiting_for_input \<lparr>waiting_for_input = Some False\<rparr> = Some False"
proof -
  have p: "parse_video_config ''Topic: foo''
      = Inr \<lparr>topic = ''foo'', mode = ''short'', style = ''cinematic''\<rparr>"
    by code_simp
  have f: "waiting_for_input \<lparr>waiting_for_input = Some True\<rparr> = Some True" by simp
  have h: "handle_input stub_world ''Topic: foo'' 7 \<lparr>waiting_for_input = Some True\<rparr>
     = (Inr (), \<lparr>waiting_for_input = Some False\<rparr>,
        [Reply_text (Config_diterima \<lparr>topic = ''foo'', mode = ''short'', style = ''cinematic''\<rparr>),
         Create_task \<lparr>topic = ''foo'', mode = ''short'', style = ''cinematic''\<rparr> 7])"
    by (simp add: handle_input_def p stub_world_def)
  show ?thesis
    using h handle_input_flag [OF f h] by (simp add: p)
qed

text \<open>
  With the flag set, the message \<open>Mode: long\<close>, \<open>Style: dark\<close> has no topic: the parse
  raises, the format error is sent, and the flag is still set afterwards.
\<close>

theorem handle_input_flag_counterexample:
  "handle_input stub_world ''Mode: long\<newline>Style: dark'' 7 \<lparr>waiting_for_input = Some True\<rparr>
     = (Inr (), \<lparr>waiting_for_input = Some True\<rparr>,
        [Reply_text (Format_salah ''Topik tidak boleh kosong!'')])"
proof -
  have "parse_video_config ''Mode: long\<newline>Style: dark'' = Inl (ValueError ''Topik tidak boleh kosong!'')"
    by code_simp
  then show ?thesis
    by (simp add: handle_input_def stub_world_def)
qed



text \<open>
  C5. In a run of \<open>generate_video_task\<close> that reaches the test of the file's size (the
  generator returned, the summary was sent): with a size below 50 MB the file is sent as
  an attachment, once the notice is sent and the file is open, and the message about a
  file too large is not sent; with a size of 50 MB or more no attachment is sent, the
  message saying that the file stays on the server is sent, and the user's cooldown is
  recorded.
\<close>

theorem delivery_by_size:
  assumes "generate_video_task w cfg user_id bc = (r, bc', tr)"
    and "reply_text_result w Progress_text = Inr ()"
    and "generate_result w (topic cfg) (mode cfg) (style cfg) = Inr result"
    and "stat_size w (video_path result) = Inr st_size"
    and "reply_text_result w (success_text cfg result st_size) = Inr ()"
  shows "(st_size < 50 * 1024 * 1024 \<and> reply_text_result w Mengirim_text = Inr () \<and>
          open_result w (video_path result) = Inr () \<longrightarrow>
            Reply_video (video_path result) (title result) \<in> set tr \<and>
            Reply_text Terlalu_besar_text \<notin> set tr)
       \<and> (50 * 1024 * 1024 \<le> st_size \<longrightarrow>
            filter is_reply_video tr = [] \<and>
            Reply_text Terlalu_besar_text \<in> set tr \<and>
            USER_COOLDOWNS bc' user_id = Some (datetime_now w))"
proof (intro conjI impI)
  assume a: "st_size < 50 * 1024 * 1024 \<and> reply_text_result w Mengirim_text = Inr () \<and>
          open_result w (video_path result) = Inr ()"
  then have s: "st_size < 52428800" by simp
  note t = body_small_file [OF assms(2-5) s, of user_id bc]
  show "Reply_video (video_path result) (title result) \<in> set tr"
    using assms(1) t a
    by (auto simp: generate_video_task_def delivery_prefix_def split: sum.splits)
  show "Reply_text Terlalu_besar_text \<notin> set tr"
    using assms(1) t a
    by (auto simp: generate_video_task_def delivery_prefix_def success_text_def split: sum.splits)
next
  assume "50 * 1024 * 1024 \<le> st_size"
  then have s: "52428800 \<le> st_size" by simp
  note t = body_large_file [OF assms(2-5) s, of user_id bc]
  show "filter is_reply_video tr = []"
    using assms(1) t
    by (auto simp: generate_video_task_def delivery_prefix_def is_reply_video_def split: sum.splits)
  show "Reply_text Terlalu_besar_text \<in> set tr"
    using assms(1) t
    by (auto simp: generate_video_task_def delivery_prefix_def split: sum.splits)
  show "USER_COOLDOWNS bc' user_id = Some (datetime_now w)"
    using assms(1) t
    by (auto simp: generate_video_task_def mark_generated_def split: sum.splits)
qed

theorem delivery_by_size_witness:
  "generate_video_task stub_world ai_config 7 no_cooldowns =
     (Inr (), marked_7,
      delivery_prefix ai_config ai_result 1048576 7 @
      [Reply_text Mengirim_text, Open_file ''dummy.mp4'', Reply_video ''dummy.mp4'' ''AI'',
       Close_file ''dummy.mp4'', Unlink ''dummy.mp4''])
   \<and> generate_video_task big_file_world ai_config 7 no_cooldowns =
     (Inr (), marked_7,
      delivery_prefix ai_config ai_result 62914560 7 @
      [Reply_text Terlalu_besar_text, Unlink ''dummy.mp4''])
   \<and> filter is_reply_video (delivery_prefix ai_config ai_result 62914560 7 @
      [Reply_text Terlalu_besar_text, Unlink ''dummy.mp4'']) = []
   \<and> USER_COOLDOWNS marked_7 7 = Some 1000"
proof -
  have p: "reply_text_result stub_world Progress_text = Inr ()"
    by (simp add: stub_world_def)
  have g: "generate_result stub_world (topic ai_config) (mode ai_config) (style ai_config)
      = Inr ai_result"
    by (simp add: stub_world_def ai_config_def ai_result_def)
  have s: "stat_size stub_world (video_path ai_result) = Inr 1048576"
    by (simp add: stub_world_def)
  have t: "reply_text_result stub_world (success_text ai_config ai_result 1048576) = Inr ()"
    by (simp add: stub_world_def)
  have p': "reply_text_result big_file_world Progress_text = Inr ()"
    by (simp add: big_file_world_def stub_world_def)
  have g': "generate_result big_file_world (topic ai_config) (mode ai_config) (style ai_config)
      = Inr ai_result"
    by (simp add: big_file_world_def stub_world_def ai_config_def ai_result_def)
  have s': "stat_size big_file_world (video_path ai_result) = Inr 62914560"
    by (simp add: big_file_world_def stub_world_def)
  have t': "reply_text_result big_file_world (success_text ai_config ai_result 62914560) = Inr ()"
    by (simp add: big_file_world_def stub_world_def)
  have n: "datetime_now big_file_world = 1000"
    by (simp add: big_file_world_def stub_world_def)
  show ?thesis
    using delivery_by_size [OF run_stub p g s t] delivery_by_size [OF run_big_file p' g' s' t']
      run_stub run_big_file n
    by simp
qed

text \<open>
  C6. The deletion of the file stands after the delivery, inside the \<open>try\<close> block. On
  a run where every call returns, a file of 1 MB is sent and then deleted. On the same
  run with a transmission that raises, the task closes the file, logs the error and
  sends the failure notice: the deletion is never called, and the file stays behind.
\<close>

theorem cleanup_skipped_when_transmission_raises:
  "generate_video_task stub_world ai_config 7 no_cooldowns =
     (Inr (), marked_7,
      [Reply_text Progress_text, Generate ''AI'' ''long'' ''cinematic'', Mark_generated 7,
       Stat ''dummy.mp4'', Reply_text (success_text ai_config ai_result 1048576),
       Stat ''dummy.mp4'', Reply_text Mengirim_text, Open_file ''dummy.mp4'',
       Reply_video ''dummy.mp4'' ''AI'', Close_file ''dummy.mp4'', Unlink ''dummy.mp4''])
   \<and> generate_video_task video_fails_world ai_config 7 no_cooldowns =
     (Inr (), marked_7,
      [Reply_text Progress_text, Generate ''AI'' ''long'' ''cinematic'', Mark_generated 7,
       Stat ''dummy.mp4'', Reply_text (success_text ai_config ai_result 1048576),
       Stat ''dummy.mp4'', Reply_text Mengirim_text, Open_file ''dummy.mp4'',
       Reply_video ''dummy.mp4'' ''AI'', Close_file ''dummy.mp4'',
       Log_error ''Timed out'', Reply_text (Gagal_text ''Timed out'')])
   \<and> stat_size video_fails_world ''dummy.mp4'' = Inr 1048576
   \<and> reply_video_result video_fails_world ''dummy.mp4'' = Inl (Exception ''Timed out'')
   \<and> Unlink ''dummy.mp4'' \<notin> set (snd (snd (generate_video_task video_fails_world ai_config 7 no_cooldowns)))"
  by (simp add: run_defs video_fails_world_def stub_world_def ai_config_def ai_result_def
        no_cooldowns_def marked_7_def mark_generated_def)

end
